theory Spec2Isabelle
  imports Main
begin

section \<open>The driver of the scripting language and its watch instrumentation\<close>

text \<open>
  The theory embeds \<^verbatim>\<open>runner.py\<close>: the class \<^verbatim>\<open>WatchContext\<close>, the functions
  \<^verbatim>\<open>parse_command_line_args\<close>, \<^verbatim>\<open>wrap_evaluate_for_watch\<close> and \<^verbatim>\<open>main\<close>.
  The tokenizer, the parser and the evaluator are imported by the runner from other
  modules; they are parameters of the model.
\<close>

subsection \<open>Characters and text\<close>

abbreviation dq :: char where "dq \<equiv> CHR 0x22"
abbreviation sq :: char where "sq \<equiv> CHR 0x27"
abbreviation nl :: char where "nl \<equiv> CHR 0x0A"

text \<open>\<^verbatim>\<open>sep.join(xs)\<close>\<close>

fun join :: "string \<Rightarrow> string list \<Rightarrow> string" where
  "join sep [] = []"
| "join sep [x] = x"
| "join sep (x # y # ys) = x @ sep @ join sep (y # ys)"

text \<open>\<^verbatim>\<open>s.startswith(p)\<close>\<close>

definition startswith :: "string \<Rightarrow> string \<Rightarrow> bool" where
  "startswith p s = (take (length p) s = p)"

text \<open>
  \<^verbatim>\<open>str(n)\<close> for an integer: its decimal digits, with a minus sign when negative.
\<close>

fun str_nat :: "nat \<Rightarrow> string" where
  "str_nat n =
     (if n < 10 then [''0123456789'' ! n]
      else str_nat (n div 10) @ [''0123456789'' ! (n mod 10)])"

declare str_nat.simps [simp del]

definition str_int :: "int \<Rightarrow> string" where
  "str_int i = (if i < 0 then CHR ''-'' # str_nat (nat (- i)) else str_nat (nat i))"

text \<open>
  \<^verbatim>\<open>s.strip()\<close> removes the white space at both ends. A character here is a code
  point below 256; the white space among those is 9 to 13, 28 to 32, 133 and 160.
\<close>

definition isspace :: "char \<Rightarrow> bool" where
  "isspace c =
     (let n = of_char c :: nat
      in (9 \<le> n \<and> n \<le> 13) \<or> (28 \<le> n \<and> n \<le> 32) \<or> n = 133 \<or> n = 160)"

definition strip :: "string \<Rightarrow> string" where
  "strip s = rev (dropWhile isspace (rev (dropWhile isspace s)))"

subsection \<open>Values of the scripting language\<close>

text \<open>
  The evaluator hands Python objects to the runner. The runner tells them apart with
  \<^verbatim>\<open>isinstance\<close> and \<^verbatim>\<open>is None\<close>, in this order in \<^verbatim>\<open>_format_value\<close>:
  \<^verbatim>\<open>str\<close>, \<^verbatim>\<open>bool\<close>, \<^verbatim>\<open>list\<close>, \<^verbatim>\<open>dict\<close>, \<^verbatim>\<open>None\<close>, anything else. A dictionary keeps
  its items in insertion order, so it is an association list. \<open>VOther s\<close> is any other
  object (a float, say), carried by the text \<^verbatim>\<open>str()\<close> gives for it.
\<close>

datatype val =
    VNone
  | VBool bool
  | VInt int
  | VStr string
  | VList "val list"
  | VDict "(string \<times> val) list"
  | VOther string

type_synonym pydict = "(string \<times> val) list"

text \<open>\<^verbatim>\<open>d.get(k)\<close>: the value under the key, \<^verbatim>\<open>None\<close> when the key is missing.\<close>

definition dict_get :: "pydict \<Rightarrow> string \<Rightarrow> val" where
  "dict_get d k = (case map_of d k of None \<Rightarrow> VNone | Some v \<Rightarrow> v)"

subsection \<open>\<^verbatim>\<open>WatchContext\<close>\<close>

record WatchContext =
  watch_var :: "string option"
  watch_enabled :: bool
  stack_trace :: "string list"

text \<open>\<^verbatim>\<open>WatchContext.__init__\<close>\<close>

definition WatchContext_init :: "string option \<Rightarrow> WatchContext" where
  "WatchContext_init wv =
     \<lparr>watch_var = wv, watch_enabled = (wv \<noteq> None), stack_trace = []\<rparr>"

text \<open>
  \<^verbatim>\<open>WatchContext._format_value\<close>. The method calls itself for every element of a list
  and every value of a dictionary, on the stack of the interpreter, and it renders an
  integer with \<^verbatim>\<open>str\<close>. Both can fail: a call that finds no room on the stack raises
  \<^verbatim>\<open>RecursionError\<close>, and \<^verbatim>\<open>str\<close> raises \<^verbatim>\<open>ValueError\<close> for an integer with more decimal
  digits than \<^verbatim>\<open>sys.get_int_max_str_digits()\<close> allows (4300 unless configured, 0 for no
  limit). The first failure ends the formatting: \<^verbatim>\<open>join\<close> takes the elements in order.

  \<open>format_value m d v\<close>: \<open>m\<close> is the limit on digits, \<open>d\<close> the number of nested calls of the
  method that still fit on the stack, this one included. With the recursion limit of
  1000 frames that CPython starts with, \<open>d\<close> is below 1000 when the formatter is entered.
  A value is a finite tree; a list that holds itself is not one, and the method would
  not return on it either.
\<close>

datatype fmt_error = RecursionError | ValueError

definition ndigits :: "int \<Rightarrow> nat" where
  "ndigits i = length (str_nat (nat \<bar>i\<bar>))"

fun collect :: "(fmt_error + string) list \<Rightarrow> fmt_error + string list" where
  "collect [] = Inr []"
| "collect (Inl e # rs) = Inl e"
| "collect (Inr t # rs) = (case collect rs of Inl e \<Rightarrow> Inl e | Inr ts \<Rightarrow> Inr (t # ts))"

fun format_value :: "nat \<Rightarrow> nat \<Rightarrow> val \<Rightarrow> fmt_error + string" where
  "format_value m 0 val = Inl RecursionError"
| "format_value m (Suc d) (VStr s) = Inr (dq # s @ [dq])"
| "format_value m (Suc d) (VBool b) = Inr (if b then ''true'' else ''false'')"
| "format_value m (Suc d) (VList vs) =
     (case collect (map (format_value m d) vs) of
        Inl e \<Rightarrow> Inl e
      | Inr ts \<Rightarrow> Inr (''['' @ join '', '' ts @ '']''))"
| "format_value m (Suc d) (VDict kvs) =
     (case collect (map (\<lambda>(k, v). case format_value m d v of
                                      Inl e \<Rightarrow> Inl e
                                    | Inr t \<Rightarrow> Inr (dq # k @ dq # '': '' @ t)) kvs) of
        Inl e \<Rightarrow> Inl e
      | Inr items \<Rightarrow> Inr (''{'' @ join '', '' items @ ''}''))"
| "format_value m (Suc d) VNone = Inr ''null''"
| "format_value m (Suc d) (VInt n) =
     (if m \<noteq> 0 \<and> m < ndigits n then Inl ValueError else Inr (str_int n))"
| "format_value m (Suc d) (VOther s) = Inr s"

text \<open>
  The limits of the host at a call of the formatter, and the ones CPython starts with
  (the budget of calls cannot exceed the recursion limit).
\<close>

record limits =
  depth_budget :: nat
  max_str_digits :: nat

definition default_limits :: limits where
  "default_limits = \<lparr>depth_budget = 1000, max_str_digits = 4300\<rparr>"

text \<open>\<^verbatim>\<open>str(e)\<close> for the two exceptions.\<close>

definition error_text :: "nat \<Rightarrow> fmt_error \<Rightarrow> string" where
  "error_text m e =
     (case e of
        RecursionError \<Rightarrow> ''maximum recursion depth exceeded''
      | ValueError \<Rightarrow>
          ''Exceeds the limit ('' @ str_nat m @ '' digits) for integer string conversion; ''
          @ ''use sys.set_int_max_str_digits() to increase the limit'')"

text \<open>\<^verbatim>\<open>WatchContext._get_location\<close>\<close>

definition get_location :: "WatchContext \<Rightarrow> string" where
  "get_location ctx =
     (if stack_trace ctx \<noteq> [] then ''in function '' @ sq # last (stack_trace ctx) @ [sq]
      else ''at module level'')"

text \<open>
  \<^verbatim>\<open>WatchContext.record_change\<close>. The method prints; the model returns the context
  as the call leaves it and the text written to the standard output. Each \<^verbatim>\<open>print\<close>
  ends its text with a newline. The value is formatted before the first \<^verbatim>\<open>print\<close>
  writes, so a failure of the formatter leaves the method with nothing printed.
\<close>

definition record_change ::
  "limits \<Rightarrow> WatchContext \<Rightarrow> string \<Rightarrow> val \<Rightarrow> WatchContext \<times> (fmt_error + string)" where
  "record_change h ctx var_name new_value =
     (case watch_var ctx of
        None \<Rightarrow> (ctx, Inr [])
      | Some w \<Rightarrow>
          if watch_enabled ctx \<and> var_name = w then
            (let location = get_location ctx
             in case format_value (max_str_digits h) (depth_budget h) new_value of
                  Inl e \<Rightarrow> (ctx, Inl e)
                | Inr text \<Rightarrow>
                    (ctx,
                     Inr (nl # ''[WATCH: '' @ w @ ''] New value: '' @ text @ [nl]
                          @ ''         Location: '' @ location @ [nl]
                          @ (if stack_trace ctx \<noteq> []
                             then ''         Call stack depth: ''
                                  @ str_nat (length (stack_trace ctx)) @ [nl]
                             else []))))
          else (ctx, Inr []))"

subsection \<open>The collaborators and what a call of the evaluator leaves behind\<close>

text \<open>
  An exception that reaches the runner: one of the class \<^verbatim>\<open>Exception\<close>, carried by
  the text \<^verbatim>\<open>str(e)\<close> that the runner prints, or a \<^verbatim>\<open>KeyboardInterrupt\<close>, which is
  not of that class.
\<close>

datatype exn = Exception string | KeyboardInterrupt

type_synonym env = "string \<rightharpoonup> val"

text \<open>
  \<^verbatim>\<open>evaluate(ast, environment)\<close> mutates the environment in place, may print, and
  either raises or returns the pair \<^verbatim>\<open>(value, status)\<close>. The outcome of a call holds
  all three: the environment as the call leaves it (also when it raises), the text it
  wrote to the standard output, and the exception or the returned pair.
\<close>

record outcome =
  o_env :: env
  o_out :: string
  o_res :: "exn + val \<times> string"

type_synonym evaluator = "pydict \<Rightarrow> env \<Rightarrow> outcome"

subsection \<open>\<^verbatim>\<open>wrap_evaluate_for_watch\<close>\<close>

text \<open>
  The syntax tree is a dictionary. \<^verbatim>\<open>ast["tag"]\<close> and \<^verbatim>\<open>ast["target"]\<close> raise
  \<^verbatim>\<open>KeyError\<close> on a missing key; \<^verbatim>\<open>var_name in environment\<close> raises \<^verbatim>\<open>TypeError\<close>
  when \<^verbatim>\<open>var_name\<close> is a list or a dictionary, and is false for any other object that
  is not a string, the keys of the environment being strings. An exception of
  \<^verbatim>\<open>record_change\<close> leaves the wrapper in place of the result. The wrapper returns the
  watch context as it leaves it, next to the outcome.
\<close>

definition raised :: "env \<Rightarrow> string \<Rightarrow> outcome" where
  "raised environment msg = \<lparr>o_env = environment, o_out = [], o_res = Inl (Exception msg)\<rparr>"

definition wrapped_evaluate ::
  "limits \<Rightarrow> evaluator \<Rightarrow> WatchContext \<Rightarrow> pydict \<Rightarrow> env \<Rightarrow> WatchContext \<times> outcome" where
  "wrapped_evaluate h original_evaluate watch_ctx ast environment =
     (case map_of ast ''tag'' of
        None \<Rightarrow> (watch_ctx, raised environment (sq # ''tag'' @ [sq]))
      | Some tag \<Rightarrow>
          if tag = VStr ''assign'' \<and> watch_enabled watch_ctx then
            (case map_of ast ''target'' of
               None \<Rightarrow> (watch_ctx, raised environment (sq # ''target'' @ [sq]))
             | Some (VDict target) \<Rightarrow>
                 if dict_get target ''tag'' = VStr ''identifier'' then
                   (let var_name = dict_get target ''value'';
                        r = original_evaluate ast environment
                    in case o_res r of
                         Inl e \<Rightarrow> (watch_ctx, r)
                       | Inr res \<Rightarrow>
                           (case var_name of
                              VStr name \<Rightarrow>
                                (case o_env r name of
                                   None \<Rightarrow> (watch_ctx, r)
                                 | Some v \<Rightarrow>
                                     (case record_change h watch_ctx name v of
                                        (ctx', Inr report) \<Rightarrow>
                                          (ctx', r\<lparr>o_out := o_out r @ report\<rparr>)
                                      | (ctx', Inl e) \<Rightarrow>
                                          (ctx',
                                           r\<lparr>o_res :=
                                               Inl (Exception
                                                      (error_text (max_str_digits h) e))\<rparr>)))
                            | VList xs \<Rightarrow>
                                (watch_ctx,
                                 r\<lparr>o_res := Inl (Exception (''unhashable type: '' @ sq # ''list'' @ [sq]))\<rparr>)
                            | VDict d \<Rightarrow>
                                (watch_ctx,
                                 r\<lparr>o_res := Inl (Exception (''unhashable type: '' @ sq # ''dict'' @ [sq]))\<rparr>)
                            | _ \<Rightarrow> (watch_ctx, r)))
                 else (watch_ctx, original_evaluate ast environment)
             | Some _ \<Rightarrow> (watch_ctx, original_evaluate ast environment))
          else (watch_ctx, original_evaluate ast environment))"

subsection \<open>The process: its trace and how it ends\<close>

text \<open>
  A run is observed as a trace: the texts written to the standard output and to the
  error stream, the prompts of \<^verbatim>\<open>input\<close>, and a mark for each call of a stage of the
  pipeline. The marks are not output; they record that the stage was entered.
\<close>

datatype stage = Tokenize | Parse | Evaluate

datatype event = Out string | Err string | Prompt string | Invoke stage

fun stdout_of :: "event list \<Rightarrow> string" where
  "stdout_of [] = []"
| "stdout_of (Out s # es) = s @ stdout_of es"
| "stdout_of (e # es) = stdout_of es"

fun stderr_of :: "event list \<Rightarrow> string" where
  "stderr_of [] = []"
| "stderr_of (Err s # es) = s @ stderr_of es"
| "stderr_of (e # es) = stderr_of es"

fun invoked :: "event list \<Rightarrow> stage list" where
  "invoked [] = []"
| "invoked (Invoke g # es) = g # invoked es"
| "invoked (e # es) = invoked es"

text \<open>
  How the process ends: \<^verbatim>\<open>sys.exit(n)\<close>, with the \<open>n\<close> the runner passes (what the
  operating system keeps of it is outside the model); \<^verbatim>\<open>main\<close> returning, which ends
  the process with status 0; an exception that no handler of \<^verbatim>\<open>main\<close> catches; or never, when the
  input of the interactive loop is exhausted: \<^verbatim>\<open>input\<close> then raises \<^verbatim>\<open>EOFError\<close> on
  every call, the handler prints it and the loop reads again.
\<close>

datatype ending = Exit int | Returned | Uncaught exn | Spinning

text \<open>\<^verbatim>\<open>print(s)\<close> and \<^verbatim>\<open>print(s, file=sys.stderr)\<close>\<close>

definition print :: "string \<Rightarrow> event" where
  "print s = Out (s @ [nl])"

definition print_err :: "string \<Rightarrow> event" where
  "print_err s = Err (s @ [nl])"

definition prepend :: "event list \<Rightarrow> event list \<times> ending \<Rightarrow> event list \<times> ending" where
  "prepend es r = (es @ fst r, snd r)"

text \<open>
  What surrounds the runner: the three collaborators, the rendering \<^verbatim>\<open>print\<close> gives a
  list or a dictionary (the host's own, with quoted strings inside), the files, and the
  lines typed at the prompt.
\<close>

datatype file_state = NoFile | Unreadable string | Readable string

datatype input = Line string | Interrupt

record 'tok world =
  tokenize :: "string \<Rightarrow> exn + 'tok"
  parse :: "'tok \<Rightarrow> exn + pydict"
  evaluate :: evaluator
  host_str :: "val \<Rightarrow> string"
  files :: "string \<Rightarrow> file_state"
  stdin :: "input list"

subsection \<open>\<^verbatim>\<open>parse_command_line_args\<close>\<close>

text \<open>\<^verbatim>\<open>arg.split("=", 1)[1]\<close>, for an argument that holds an equals sign: what follows the first one.\<close>

definition after_equals :: "string \<Rightarrow> string" where
  "after_equals arg = tl (dropWhile (\<lambda>c. c \<noteq> CHR ''='') arg)"

definition config_error :: string where
  "config_error = ''Error: watch argument requires a variable name (watch=variable_name)''"

text \<open>
  The loop over \<^verbatim>\<open>sys.argv[1:]\<close>, with \<^verbatim>\<open>(filename, watch_var)\<close> as its state. \<open>Inl\<close>
  is the branch that prints the configuration error and calls \<^verbatim>\<open>sys.exit(1)\<close>.
\<close>

fun args_loop ::
  "string list \<Rightarrow> string option \<times> string option \<Rightarrow> string + string option \<times> string option" where
  "args_loop [] st = Inr st"
| "args_loop (arg # args) (filename, watch) =
     (if startswith ''watch='' arg then
        (let watch' = after_equals arg
         in if watch' = [] then Inl config_error
            else args_loop args (filename, Some watch'))
      else if \<not> startswith ''-'' arg then args_loop args (Some arg, watch)
      else args_loop args (filename, watch))"

definition parse_command_line_args :: "string list \<Rightarrow> string + string option \<times> string option" where
  "parse_command_line_args argv = args_loop argv (None, None)"

subsection \<open>\<^verbatim>\<open>main\<close>\<close>

text \<open>\<^verbatim>\<open>if filename:\<close> and \<^verbatim>\<open>if watch_var:\<close> hold for a string that is not empty.\<close>

fun truthy :: "string option \<Rightarrow> bool" where
  "truthy None = False"
| "truthy (Some s) = (s \<noteq> [])"

text \<open>
  The three lines both modes share: \<^verbatim>\<open>tokens = tokenize(source_code)\<close>,
  \<^verbatim>\<open>ast = parse(tokens)\<close>, \<^verbatim>\<open>final_value, exit_status = evaluate(ast, environment)\<close>.
  The result is the trace, the environment afterwards, and the exception or the pair.
\<close>

definition pipeline ::
  "'tok world \<Rightarrow> string \<Rightarrow> env \<Rightarrow> event list \<times> env \<times> (exn + val \<times> string)" where
  "pipeline w source_code environment =
     (case tokenize w source_code of
        Inl e \<Rightarrow> ([Invoke Tokenize], environment, Inl e)
      | Inr tokens \<Rightarrow>
          (case parse w tokens of
             Inl e \<Rightarrow> ([Invoke Tokenize, Invoke Parse], environment, Inl e)
           | Inr ast \<Rightarrow>
               (let r = evaluate w ast environment
                in ([Invoke Tokenize, Invoke Parse, Invoke Evaluate, Out (o_out r)],
                    o_env r, o_res r))))"

text \<open>
  \<^verbatim>\<open>exit_code = final_value if isinstance(final_value, int) else 0\<close>. In Python
  \<^verbatim>\<open>bool\<close> is a subclass of \<^verbatim>\<open>int\<close>, so the test holds for \<^verbatim>\<open>True\<close> and \<^verbatim>\<open>False\<close>, and
  \<^verbatim>\<open>sys.exit(True)\<close> ends the process with status 1.
\<close>

definition exit_code :: "val \<Rightarrow> int" where
  "exit_code final_value =
     (case final_value of VInt n \<Rightarrow> n | VBool b \<Rightarrow> (if b then 1 else 0) | _ \<Rightarrow> 0)"

text \<open>
  The file mode, from \<^verbatim>\<open>os.path.exists\<close> on. A path that exists and cannot be opened or
  read makes \<^verbatim>\<open>open\<close> or \<^verbatim>\<open>read\<close> raise inside the \<^verbatim>\<open>try\<close>.
\<close>

definition file_mode :: "'tok world \<Rightarrow> string \<Rightarrow> env \<Rightarrow> event list \<times> ending" where
  "file_mode w filename environment =
     (case files w filename of
        NoFile \<Rightarrow> ([print (''Error: File '' @ sq # filename @ sq # '' not found'')], Exit 1)
      | Unreadable msg \<Rightarrow> ([print_err (''Error: '' @ msg)], Exit 1)
      | Readable source_code \<Rightarrow>
          (case pipeline w source_code environment of
             (tr, environment', Inr (final_value, exit_status)) \<Rightarrow>
               if exit_status = ''exit'' then (tr, Exit (exit_code final_value))
               else (tr, Returned)
           | (tr, environment', Inl (Exception msg)) \<Rightarrow>
               (tr @ [print_err (''Error: '' @ msg)], Exit 1)
           | (tr, environment', Inl KeyboardInterrupt) \<Rightarrow> (tr, Uncaught KeyboardInterrupt)))"

text \<open>
  What \<^verbatim>\<open>print(final_value)\<close> writes: \<^verbatim>\<open>str(final_value)\<close>, the string itself for a
  string, the host's rendering for a list or a dictionary. An integer is written in
  full: the limit of the host on the digits of an integer, which \<open>format_value\<close>
  models, is left out of the display.
\<close>

definition py_str :: "(val \<Rightarrow> string) \<Rightarrow> val \<Rightarrow> string" where
  "py_str h v =
     (case v of
        VNone \<Rightarrow> ''None''
      | VBool b \<Rightarrow> (if b then ''True'' else ''False'')
      | VInt n \<Rightarrow> str_int n
      | VStr s \<Rightarrow> s
      | VOther s \<Rightarrow> s
      | _ \<Rightarrow> h v)"

text \<open>The branch of the loop that shows the result, from \<^verbatim>\<open>elif final_value is not None:\<close> on.\<close>

definition show_result :: "(val \<Rightarrow> string) \<Rightarrow> val \<Rightarrow> event list" where
  "show_result h final_value =
     (if final_value \<noteq> VNone then
        (case final_value of
           VBool b \<Rightarrow> [print (if b then ''true'' else ''false'')]
         | VNone \<Rightarrow> [print ''null'']
         | _ \<Rightarrow> [print (py_str h final_value)])
      else [])"

text \<open>
  The interactive loop, one equation per kind of input. Each iteration starts with the
  prompt of \<^verbatim>\<open>input\<close>. \<^verbatim>\<open>print("\n")\<close> writes two newlines.
\<close>

fun repl_loop :: "'tok world \<Rightarrow> input list \<Rightarrow> env \<Rightarrow> event list \<times> ending" where
  "repl_loop w [] environment =
     ([Prompt ''>> '', print ''Error: EOF when reading a line''], Spinning)"
| "repl_loop w (Interrupt # rest) environment =
     prepend [Prompt ''>> '', print [nl]] (repl_loop w rest environment)"
| "repl_loop w (Line source_code # rest) environment =
     (if strip source_code = ''exit'' \<or> strip source_code = ''quit'' then
        ([Prompt ''>> ''], Returned)
      else if strip source_code = [] then
        prepend [Prompt ''>> ''] (repl_loop w rest environment)
      else
        (case pipeline w source_code environment of
           (tr, environment', Inr (final_value, exit_status)) \<Rightarrow>
             if exit_status = ''exit'' then
               (Prompt ''>> '' # tr, Exit (exit_code final_value))
             else
               prepend (Prompt ''>> '' # tr @ show_result (host_str w) final_value)
                 (repl_loop w rest environment')
         | (tr, environment', Inl KeyboardInterrupt) \<Rightarrow>
             prepend (Prompt ''>> '' # tr @ [print [nl]]) (repl_loop w rest environment')
         | (tr, environment', Inl (Exception msg)) \<Rightarrow>
             prepend (Prompt ''>> '' # tr @ [print (''Error: '' @ msg)])
               (repl_loop w rest environment')))"

definition repl_mode :: "'tok world \<Rightarrow> string option \<Rightarrow> env \<Rightarrow> event list \<times> ending" where
  "repl_mode w watch environment =
     prepend
       ([print ''Language Interpreter REPL'']
        @ (case watch of
             Some v \<Rightarrow> if v \<noteq> [] then [print (''Watching: '' @ v)] else []
           | None \<Rightarrow> [])
        @ [print (''Type '' @ sq # ''exit'' @ sq # '' or '' @ sq # ''quit'' @ sq # '' to exit'' @ [nl])])
       (repl_loop w (stdin w) environment)"

definition main :: "'tok world \<Rightarrow> string list \<Rightarrow> event list \<times> ending" where
  "main w argv =
     (case parse_command_line_args argv of
        Inl msg \<Rightarrow> ([print msg], Exit 1)
      | Inr (filename, watch) \<Rightarrow>
          (let watch_context = WatchContext_init watch;
               banner =
                 (case watch of
                    Some v \<Rightarrow>
                      if v \<noteq> [] then
                        [print (''[DEBUG] Watching variable: '' @ sq # v @ [sq]), print []]
                      else []
                  | None \<Rightarrow> []);
               environment = Map.empty
           in prepend banner
                (case filename of
                   Some f \<Rightarrow>
                     if f \<noteq> [] then file_mode w f environment
                     else repl_mode w watch environment
                 | None \<Rightarrow> repl_mode w watch environment)))"

subsection \<open>A small instance of the collaborators\<close>

text \<open>
  The theorems below hold for every tokenizer, parser and evaluator. To apply them to
  concrete runs, this instance stands in for the three modules: the tokenizer refuses a
  question mark and otherwise hands the text on, the parser knows a handful of source
  texts, and the evaluator runs programs of assignments, expressions and \<^verbatim>\<open>exit\<close>
  statements whose operands are literals or variables.
\<close>

definition lit :: "val \<Rightarrow> val" where
  "lit v = VDict [(''tag'', VStr ''literal''), (''value'', v)]"

definition ident :: "string \<Rightarrow> val" where
  "ident x = VDict [(''tag'', VStr ''identifier''), (''value'', VStr x)]"

definition assign :: "string \<Rightarrow> val \<Rightarrow> pydict" where
  "assign x e = [(''tag'', VStr ''assign''), (''target'', ident x), (''value'', e)]"

definition exit_stmt :: "val \<Rightarrow> pydict" where
  "exit_stmt e = [(''tag'', VStr ''exit''), (''value'', e)]"

definition program :: "pydict list \<Rightarrow> pydict" where
  "program ss = [(''tag'', VStr ''program''), (''statements'', VList (map VDict ss))]"

definition demo_tokenize :: "string \<Rightarrow> exn + string" where
  "demo_tokenize s =
     (if CHR ''?'' \<in> set s then Inl (Exception ''Unexpected character'') else Inr s)"

definition demo_parse :: "string \<Rightarrow> exn + pydict" where
  "demo_parse t =
     (if t = ''x=1; x=2; x=3'' then
        Inr (program [assign ''x'' (lit (VInt 1)), assign ''x'' (lit (VInt 2)),
                      assign ''x'' (lit (VInt 3))])
      else if t = ''x=5'' then Inr (assign ''x'' (lit (VInt 5)))
      else if t = ''x'' then Inr [(''tag'', VStr ''identifier''), (''value'', VStr ''x'')]
      else if t = ''y'' then Inr [(''tag'', VStr ''identifier''), (''value'', VStr ''y'')]
      else if t = ''exit 3'' then Inr (exit_stmt (lit (VInt 3)))
      else if t = ''exit true'' then Inr (exit_stmt (lit (VBool True)))
      else if t = ''exit null'' then Inr (exit_stmt (lit VNone))
      else Inl (Exception ''Parse error''))"

definition demo_expr :: "val \<Rightarrow> env \<Rightarrow> exn + val" where
  "demo_expr e environment =
     (case e of
        VDict d \<Rightarrow>
          if dict_get d ''tag'' = VStr ''literal'' then Inr (dict_get d ''value'')
          else if dict_get d ''tag'' = VStr ''identifier'' then
            (case dict_get d ''value'' of
               VStr x \<Rightarrow>
                 (case environment x of
                    Some v \<Rightarrow> Inr v
                  | None \<Rightarrow> Inl (Exception (''Unknown variable '' @ x)))
             | _ \<Rightarrow> Inl (Exception ''Bad identifier''))
          else Inl (Exception ''Unknown expression'')
      | _ \<Rightarrow> Inl (Exception ''Unknown expression''))"

definition demo_stmt :: "pydict \<Rightarrow> env \<Rightarrow> outcome" where
  "demo_stmt ast environment =
     (if dict_get ast ''tag'' = VStr ''assign'' then
        (case (dict_get ast ''target'', demo_expr (dict_get ast ''value'') environment) of
           (VDict t, Inr v) \<Rightarrow>
             (case dict_get t ''value'' of
                VStr x \<Rightarrow>
                  \<lparr>o_env = environment(x \<mapsto> v), o_out = [], o_res = Inr (VNone, ''normal'')\<rparr>
              | _ \<Rightarrow> raised environment ''Bad target'')
         | (_, Inl e) \<Rightarrow> \<lparr>o_env = environment, o_out = [], o_res = Inl e\<rparr>
         | _ \<Rightarrow> raised environment ''Bad target'')
      else if dict_get ast ''tag'' = VStr ''exit'' then
        (case demo_expr (dict_get ast ''value'') environment of
           Inr v \<Rightarrow> \<lparr>o_env = environment, o_out = [], o_res = Inr (v, ''exit'')\<rparr>
         | Inl e \<Rightarrow> \<lparr>o_env = environment, o_out = [], o_res = Inl e\<rparr>)
      else
        (case demo_expr (VDict ast) environment of
           Inr v \<Rightarrow> \<lparr>o_env = environment, o_out = [], o_res = Inr (v, ''normal'')\<rparr>
         | Inl e \<Rightarrow> \<lparr>o_env = environment, o_out = [], o_res = Inl e\<rparr>))"

fun demo_block :: "val list \<Rightarrow> env \<Rightarrow> outcome" where
  "demo_block [] environment =
     \<lparr>o_env = environment, o_out = [], o_res = Inr (VNone, ''normal'')\<rparr>"
| "demo_block (VDict s # ss) environment =
     (let r = demo_stmt s environment
      in case o_res r of
           Inl e \<Rightarrow> r
         | Inr (v, status) \<Rightarrow>
             if status = ''exit'' \<or> ss = [] then r else demo_block ss (o_env r))"
| "demo_block (s # ss) environment = raised environment ''Bad statement''"

definition demo_evaluate :: evaluator where
  "demo_evaluate ast environment =
     (if dict_get ast ''tag'' = VStr ''program'' then
        (case dict_get ast ''statements'' of
           VList ss \<Rightarrow> demo_block ss environment
         | _ \<Rightarrow> raised environment ''Bad program'')
      else demo_stmt ast environment)"

definition demo_world :: "string world" where
  "demo_world =
     \<lparr>tokenize = demo_tokenize, parse = demo_parse, evaluate = demo_evaluate,
      host_str = (\<lambda>v. []),
      files = (\<lambda>p. if p = ''prog.t'' then Readable ''x=1; x=2; x=3''
                    else if p = ''exit.t'' then Readable ''exit true''
                    else if p = ''bad.t'' then Readable ''y''
                    else NoFile),
      stdin = []\<rparr>"

subsection \<open>The watch contexts the runner can hold\<close>

text \<open>
  The operations of the runner on a watch context: \<^verbatim>\<open>main\<close> creates it, and
  \<^verbatim>\<open>record_change\<close> and the wrapped evaluator are the two that receive it.
\<close>

inductive in_scope :: "WatchContext \<Rightarrow> bool" where
  created: "in_scope (WatchContext_init wv)"
| recorded: "in_scope ctx \<Longrightarrow> in_scope (fst (record_change h ctx x v))"
| wrapped: "in_scope ctx \<Longrightarrow> in_scope (fst (wrapped_evaluate h ev ctx ast environment))"

subsection \<open>The words of the specification\<close>

text \<open>
  The canonical text of a value as section 4.1 of the specification words it, to be
  compared with what \<open>format_value\<close> returns: a string in double quotes, a boolean as
  \<^verbatim>\<open>true\<close> or \<^verbatim>\<open>false\<close>, a sequence as the bracketed texts of its elements with a comma
  and a space between them, a mapping with its quoted keys in insertion order, null as
  \<^verbatim>\<open>null\<close>, anything else as its default text.
\<close>

fun canonical_text :: "val \<Rightarrow> string" where
  "canonical_text (VStr s) = dq # s @ [dq]"
| "canonical_text (VBool b) = (if b then ''true'' else ''false'')"
| "canonical_text (VList vs) = ''['' @ join '', '' (map canonical_text vs) @ '']''"
| "canonical_text (VDict kvs) =
     ''{'' @ join '', '' (map (\<lambda>(k, v). dq # k @ dq # '': '' @ canonical_text v) kvs) @ ''}''"
| "canonical_text VNone = ''null''"
| "canonical_text (VInt n) = str_int n"
| "canonical_text (VOther s) = s"

text \<open>
  How deep a value is nested (a value that is no list and no dictionary has depth 1),
  and whether each of its integers has at most \<open>m\<close> digits (any number when \<open>m\<close> is 0).
\<close>

definition maximum :: "nat list \<Rightarrow> nat" where
  "maximum ns = foldr max ns 0"

fun depth :: "val \<Rightarrow> nat" where
  "depth (VList vs) = Suc (maximum (map depth vs))"
| "depth (VDict kvs) = Suc (maximum (map (\<lambda>(k, v). depth v) kvs))"
| "depth v = 1"

fun digits_ok :: "nat \<Rightarrow> val \<Rightarrow> bool" where
  "digits_ok m (VInt n) = (m = 0 \<or> ndigits n \<le> m)"
| "digits_ok m (VList vs) = list_all (digits_ok m) vs"
| "digits_ok m (VDict kvs) = list_all (\<lambda>(k, v). digits_ok m v) kvs"
| "digits_ok m v = True"

text \<open>A value wrapped in \<open>n\<close> lists.\<close>

fun wrap :: "nat \<Rightarrow> val \<Rightarrow> val" where
  "wrap 0 v = v"
| "wrap (Suc n) v = VList [wrap n v]"

text \<open>
  A name appears in a text when the text holds it as a run of characters. The texts a
  run evaluates are the content of the script in file mode and the lines typed in the
  interactive mode.
\<close>

fun occurs :: "string \<Rightarrow> string \<Rightarrow> bool" where
  "occurs name [] = (name = [])"
| "occurs name (c # cs) = (startswith name (c # cs) \<or> occurs name cs)"

definition program_texts :: "'tok world \<Rightarrow> string option \<Rightarrow> string list" where
  "program_texts w filename =
     (if truthy filename then
        (case files w (case filename of Some f \<Rightarrow> f | None \<Rightarrow> []) of
           Readable source_code \<Rightarrow> [source_code]
         | _ \<Rightarrow> [])
      else concat (map (\<lambda>i. case i of Line s \<Rightarrow> [s] | Interrupt \<Rightarrow> []) (stdin w)))"

definition never_appears :: "'tok world \<Rightarrow> string option \<Rightarrow> string \<Rightarrow> bool" where
  "never_appears w filename name = list_all (\<lambda>t. \<not> occurs name t) (program_texts w filename)"

text \<open>
  The output of the program itself: what the evaluator writes while it runs, which in
  the trace is the text that follows the mark of its call.
\<close>

fun program_output :: "event list \<Rightarrow> string" where
  "program_output (Invoke Evaluate # Out s # es) = s @ program_output es"
| "program_output (e # es) = program_output es"
| "program_output [] = []"

section \<open>Properties\<close>

subsection \<open>Auxiliary facts\<close>

lemma stdout_of_append: "stdout_of (xs @ ys) = stdout_of xs @ stdout_of ys"
  by (induction xs rule: stdout_of.induct) simp_all

lemma stderr_of_append: "stderr_of (xs @ ys) = stderr_of xs @ stderr_of ys"
  by (induction xs rule: stderr_of.induct) simp_all

lemma invoked_append: "invoked (xs @ ys) = invoked xs @ invoked ys"
  by (induction xs rule: invoked.induct) simp_all

lemma args_loop_append:
  "args_loop (xs @ ys) st =
     (case args_loop xs st of Inl m \<Rightarrow> Inl m | Inr st' \<Rightarrow> args_loop ys st')"
  by (induction xs st rule: args_loop.induct) (simp_all add: Let_def)

lemma args_loop_watch:
  "name \<noteq> [] \<Longrightarrow> args_loop [''watch='' @ name] (f, wv) = Inr (f, Some name)"
  by (simp add: startswith_def after_equals_def)

lemma parse_with_watch:
  assumes "parse_command_line_args argv = Inr (f, wv)" and "name \<noteq> []"
  shows "parse_command_line_args (argv @ [''watch='' @ name]) = Inr (f, Some name)"
proof -
  have "args_loop [''watch='' @ name] (f, wv) = Inr (f, Some name)"
    using assms(2) by (rule args_loop_watch)
  then show ?thesis
    using assms(1) unfolding parse_command_line_args_def args_loop_append by simp
qed

lemma main_parsed:
  assumes "parse_command_line_args argv = Inr (filename, wv)"
  shows "main w argv =
    prepend
      (case wv of
         Some v \<Rightarrow>
           if v \<noteq> [] then [print (''[DEBUG] Watching variable: '' @ sq # v @ [sq]), print []]
           else []
       | None \<Rightarrow> [])
      (if truthy filename then file_mode w (the filename) Map.empty
       else repl_mode w wv Map.empty)"
  using assms by (cases filename) (simp_all add: main_def)

lemma args_loop_empty_watch:
  "''watch='' \<in> set args \<Longrightarrow> args_loop args st = Inl config_error"
proof (induction args arbitrary: st)
  case Nil
  then show ?case by simp
next
  case (Cons arg args)
  obtain f wv where st: "st = (f, wv)" by (cases st)
  show ?case
  proof (cases "arg = ''watch=''")
    case True
    then show ?thesis by (simp add: st startswith_def after_equals_def)
  next
    case False
    with Cons.prems have "''watch='' \<in> set args" by simp
    then show ?thesis using Cons.IH by (simp add: st Let_def)
  qed
qed

lemma record_change_ctx: "fst (record_change h ctx x v) = ctx"
  by (simp add: record_change_def Let_def split: option.splits sum.splits)

lemma record_change_eqD: "record_change h ctx x v = (c, r) \<Longrightarrow> c = ctx"
  using record_change_ctx [of h ctx x v] by simp

lemma wrapped_evaluate_ctx: "fst (wrapped_evaluate h ev ctx ast environment) = ctx"
  by (auto simp: wrapped_evaluate_def Let_def
      split: option.splits val.splits sum.splits prod.splits dest: record_change_eqD)

lemma in_scope_stack: "in_scope ctx \<Longrightarrow> stack_trace ctx = []"
  by (induction rule: in_scope.induct)
     (simp_all add: WatchContext_init_def record_change_ctx wrapped_evaluate_ctx)

lemma maximum_ge: "n \<in> set ns \<Longrightarrow> n \<le> maximum ns"
  by (induction ns) (auto simp: maximum_def)

lemma maximum_le: "(\<And>n. n \<in> set ns \<Longrightarrow> n \<le> b) \<Longrightarrow> maximum ns \<le> b"
  by (induction ns) (auto simp: maximum_def)

lemma collect_all_ok:
  "(\<And>x. x \<in> set xs \<Longrightarrow> f x = Inr (g x)) \<Longrightarrow> collect (map f xs) = Inr (map g xs)"
  by (induction xs) simp_all

lemma collect_Inr_D:
  "collect rs = Inr ts \<Longrightarrow> r \<in> set rs \<Longrightarrow> \<exists>t. r = Inr t"
proof (induction rs arbitrary: ts)
  case Nil
  then show ?case by simp
next
  case (Cons a rs)
  show ?case
  proof (cases a)
    case (Inl e)
    with Cons.prems show ?thesis by simp
  next
    case (Inr t)
    with Cons.prems obtain ts' where "collect rs = Inr ts'"
      by (auto split: sum.splits)
    with Cons.IH Cons.prems(2) Inr show ?thesis by auto
  qed
qed

text \<open>Within the limits the formatter returns the canonical text.\<close>

lemma format_value_ok:
  "depth v \<le> d \<Longrightarrow> digits_ok m v \<Longrightarrow> format_value m d v = Inr (canonical_text v)"
proof (induction v arbitrary: d)
  case (VList vs)
  then obtain d' where d: "d = Suc d'" by (cases d) auto
  have "format_value m d' x = Inr (canonical_text x)" if "x \<in> set vs" for x
  proof -
    have "depth x \<le> maximum (map depth vs)" using that by (intro maximum_ge) simp
    then have "depth x \<le> d'" using VList.prems(1) d by simp
    moreover have "digits_ok m x" using VList.prems(2) that by (simp add: list_all_iff)
    ultimately show ?thesis using VList.IH that by blast
  qed
  then have "collect (map (format_value m d') vs) = Inr (map canonical_text vs)"
    by (rule collect_all_ok)
  then show ?case by (simp add: d)
next
  case (VDict kvs)
  then obtain d' where d: "d = Suc d'" by (cases d) auto
  have "(case kv of (k, v) \<Rightarrow> case format_value m d' v of Inl e \<Rightarrow> Inl e
            | Inr t \<Rightarrow> Inr (dq # k @ dq # '': '' @ t))
        = Inr (case kv of (k, v) \<Rightarrow> dq # k @ dq # '': '' @ canonical_text v)"
    if "kv \<in> set kvs" for kv
  proof -
    obtain k v where kv: "kv = (k, v)" by (cases kv)
    have "depth v \<le> maximum (map (\<lambda>(k, v). depth v) kvs)"
      using that kv by (intro maximum_ge) force
    then have "depth v \<le> d'" using VDict.prems(1) d by simp
    moreover have "digits_ok m v" using VDict.prems(2) that kv by (auto simp: list_all_iff)
    ultimately have "format_value m d' v = Inr (canonical_text v)"
      using VDict.IH [of kv v d'] that kv by simp
    then show ?thesis by (simp add: kv)
  qed
  then have "collect (map (\<lambda>(k, v). case format_value m d' v of Inl e \<Rightarrow> Inl e
            | Inr t \<Rightarrow> Inr (dq # k @ dq # '': '' @ t)) kvs)
      = Inr (map (\<lambda>(k, v). dq # k @ dq # '': '' @ canonical_text v) kvs)"
    by (rule collect_all_ok)
  then show ?case by (simp add: d)
next
  case VNone then show ?case by (cases d) simp_all
next
  case (VBool b) then show ?case by (cases d) simp_all
next
  case (VInt n) then show ?case by (cases d) auto
next
  case (VStr s) then show ?case by (cases d) simp_all
next
  case (VOther s) then show ?case by (cases d) simp_all
qed

text \<open>When the formatter returns, the value was within the limits.\<close>

lemma format_value_Inr_D:
  "format_value m d v = Inr t \<Longrightarrow> depth v \<le> d \<and> digits_ok m v"
proof (induction v arbitrary: d t)
  case (VList vs)
  then obtain d' where d: "d = Suc d'" by (cases d) auto
  from VList.prems d obtain ts where c: "collect (map (format_value m d') vs) = Inr ts"
    by (auto split: sum.splits)
  have x: "depth x \<le> d' \<and> digits_ok m x" if "x \<in> set vs" for x
  proof -
    have "format_value m d' x \<in> set (map (format_value m d') vs)" using that by simp
    with c obtain t' where "format_value m d' x = Inr t'" by (blast dest: collect_Inr_D)
    with VList.IH that show ?thesis by blast
  qed
  have "maximum (map depth vs) \<le> d'" by (rule maximum_le) (use x in auto)
  then show ?case using x by (simp add: d list_all_iff)
next
  case (VDict kvs)
  then obtain d' where d: "d = Suc d'" by (cases d) auto
  let ?f = "\<lambda>(k, v). case format_value m d' v of Inl e \<Rightarrow> Inl e
            | Inr t \<Rightarrow> Inr (dq # k @ dq # '': '' @ t)"
  from VDict.prems d obtain ts where c: "collect (map ?f kvs) = Inr ts"
    by (auto split: sum.splits)
  have x: "depth v \<le> d' \<and> digits_ok m v" if "(k, v) \<in> set kvs" for k v
  proof -
    have "?f (k, v) \<in> ?f ` set kvs" using that by (rule imageI)
    then have "?f (k, v) \<in> set (map ?f kvs)" by simp
    with c obtain t' where "?f (k, v) = Inr t'" by (blast dest: collect_Inr_D)
    then obtain t'' where "format_value m d' v = Inr t''" by (auto split: sum.splits)
    with VDict.IH [of "(k, v)" v d' t''] that show ?thesis by simp
  qed
  have "maximum (map (\<lambda>(k, v). depth v) kvs) \<le> d'" by (rule maximum_le) (use x in auto)
  then show ?case using x by (auto simp: d list_all_iff)
next
  case VNone then show ?case by (cases d) simp_all
next
  case (VBool b) then show ?case by (cases d) simp_all
next
  case (VInt n) then show ?case by (cases d) (auto split: if_splits)
next
  case (VStr s) then show ?case by (cases d) simp_all
next
  case (VOther s) then show ?case by (cases d) simp_all
qed

lemma str_nat_power10: "length (str_nat (10 ^ n)) = Suc n"
proof (induction n)
  case 0
  show ?case by (simp add: str_nat.simps)
next
  case (Suc n)
  have "\<not> (10::nat) ^ Suc n < 10" by simp
  then have "str_nat (10 ^ Suc n) =
      str_nat (10 ^ Suc n div 10) @ [''0123456789'' ! (10 ^ Suc n mod 10)]"
    by (subst str_nat.simps) simp
  then show ?case using Suc by simp
qed

lemma ndigits_power10: "ndigits (10 ^ n) = Suc n"
proof -
  have a: "nat \<bar>(10::int) ^ n\<bar> = 10 ^ n" by (simp add: nat_power_eq)
  show ?thesis unfolding ndigits_def a by (rule str_nat_power10)
qed

lemma format_value_big_int:
  "0 < m \<Longrightarrow> m \<le> n \<Longrightarrow> 0 < d \<Longrightarrow> format_value m d (VInt (10 ^ n)) = Inl ValueError"
  by (cases d) (simp_all add: ndigits_power10)

lemma format_value_wrap:
  "d \<le> n \<Longrightarrow> format_value m d (wrap n (VList [])) = Inl RecursionError"
proof (induction n arbitrary: d)
  case 0
  then show ?case by simp
next
  case (Suc n)
  show ?case
  proof (cases d)
    case 0
    then show ?thesis by simp
  next
    case (Suc d')
    with Suc.prems have "d' \<le> n" by simp
    then show ?thesis using Suc.IH [of d'] Suc by simp
  qed
qed

lemma format_value_example:
  "format_value 4300 1000
     (VList [VInt 1, VStr ''a'', VBool True, VNone,
             VDict [(''k'', VList []), (''j'', VInt (- 12))], VOther ''2.5'']) =
   Inr (''[1, '' @ dq # ''a'' @ dq # '', true, null, {'' @ dq # ''k'' @ dq # '': [], ''
        @ dq # ''j'' @ dq # '': -12}, 2.5]'')"
  by code_simp

lemma demo_pipeline_unknown:
  "pipeline demo_world ''y'' [''x'' \<mapsto> VInt 5] =
     ([Invoke Tokenize, Invoke Parse, Invoke Evaluate, Out []], [''x'' \<mapsto> VInt 5],
      Inl (Exception ''Unknown variable y''))"
  by (simp add: pipeline_def demo_world_def demo_tokenize_def demo_parse_def
      demo_evaluate_def demo_stmt_def demo_expr_def dict_get_def)

lemma demo_pipeline_known:
  "pipeline demo_world ''x'' [''x'' \<mapsto> VInt 5] =
     ([Invoke Tokenize, Invoke Parse, Invoke Evaluate, Out []], [''x'' \<mapsto> VInt 5],
      Inr (VInt 5, ''normal''))"
  by (simp add: pipeline_def demo_world_def demo_tokenize_def demo_parse_def
      demo_evaluate_def demo_stmt_def demo_expr_def dict_get_def)

lemma demo_pipeline_assign:
  "pipeline demo_world ''x=5'' Map.empty =
     ([Invoke Tokenize, Invoke Parse, Invoke Evaluate, Out []], [''x'' \<mapsto> VInt 5],
      Inr (VNone, ''normal''))"
  by (simp add: pipeline_def demo_world_def demo_tokenize_def demo_parse_def
      demo_evaluate_def demo_stmt_def demo_expr_def dict_get_def assign_def ident_def lit_def)

lemma demo_pipeline_exit:
  "pipeline demo_world ''exit true'' Map.empty =
     ([Invoke Tokenize, Invoke Parse, Invoke Evaluate, Out []], Map.empty,
      Inr (VBool True, ''exit''))"
  by (simp add: pipeline_def demo_world_def demo_tokenize_def demo_parse_def
      demo_evaluate_def demo_stmt_def demo_expr_def dict_get_def exit_stmt_def lit_def)

lemma demo_stmt_dom: "dom e \<subseteq> dom (o_env (demo_stmt ast e))"
  by (auto simp: demo_stmt_def raised_def split: val.splits sum.splits)

lemma demo_block_dom: "dom e \<subseteq> dom (o_env (demo_block ss e))"
proof (induction ss e rule: demo_block.induct)
  case (2 s ss environment)
  show ?case
  proof (cases "o_res (demo_stmt s environment)")
    case (Inl x)
    then show ?thesis using demo_stmt_dom [of environment s] by (simp add: Let_def)
  next
    case (Inr r)
    obtain v status where r: "r = (v, status)" by (cases r)
    show ?thesis
    proof (cases "status = ''exit'' \<or> ss = []")
      case True
      then show ?thesis
        using Inr r demo_stmt_dom [of environment s] by (simp add: Let_def)
    next
      case False
      have "dom (o_env (demo_stmt s environment))
          \<subseteq> dom (o_env (demo_block ss (o_env (demo_stmt s environment))))"
        using "2.IH" [OF refl Inr r [symmetric]] False by simp
      then show ?thesis
        using False Inr r demo_stmt_dom [of environment s] by (auto simp: Let_def)
    qed
  qed
qed (simp_all add: raised_def)

lemma demo_evaluate_dom: "dom e \<subseteq> dom (o_env (evaluate demo_world ast e))"
  using demo_stmt_dom [of e ast] demo_block_dom [of e]
  by (simp add: demo_world_def demo_evaluate_def raised_def split: val.splits)

lemma demo_pipeline_lex_error:
  "pipeline demo_world ''x?'' environment =
     ([Invoke Tokenize], environment, Inl (Exception ''Unexpected character''))"
  by (simp add: pipeline_def demo_world_def demo_tokenize_def)

lemma strip_examples:
  "strip ''y'' = ''y''" "strip ''x'' = ''x''" "strip ''x=5'' = ''x=5''"
  "strip ''exit true'' = ''exit true''"
  by (simp_all add: strip_def isspace_def)

subsection \<open>Watch reports of a run (C1)\<close>

text \<open>
  Claim C1: a run on the script \<^verbatim>\<open>x=1; x=2; x=3\<close> with \<^verbatim>\<open>watch=x\<close> emits three watch
  reports, showing 1, 2 and 3, in program order.

  \<^verbatim>\<open>main\<close> calls the imported \<^verbatim>\<open>evaluate\<close>; it never applies
  \<^verbatim>\<open>wrap_evaluate_for_watch\<close> and never calls \<^verbatim>\<open>record_change\<close>. The run below, on a
  file that holds this script, writes the banner and nothing else: no report. The
  wrapper itself, applied to the node of the whole program, reports nothing either: it
  looks at the tag of the node it is given, and the three assignments are inside.
\<close>

theorem unwired_watch_emits_no_report:
  "files demo_world ''prog.t'' = Readable ''x=1; x=2; x=3''
   \<and> main demo_world [''prog.t'', ''watch=x''] =
       ([print (''[DEBUG] Watching variable: '' @ sq # ''x'' @ [sq]), print [],
         Invoke Tokenize, Invoke Parse, Invoke Evaluate, Out []], Returned)
   \<and> stdout_of (fst (main demo_world [''prog.t'', ''watch=x''])) =
       ''[DEBUG] Watching variable: '' @ sq # ''x'' @ [sq, nl, nl]
   \<and> o_out (snd (wrapped_evaluate default_limits demo_evaluate (WatchContext_init (Some ''x''))
         (program [assign ''x'' (lit (VInt 1)), assign ''x'' (lit (VInt 2)),
                   assign ''x'' (lit (VInt 3))]) Map.empty)) = []"
  by code_simp

subsection \<open>What enabling the watch changes (C2)\<close>

text \<open>
  Claim C2: running a program with watching disabled, and again with watching enabled
  on a name that never appears in it, gives byte-identical primary program output.

  The primary output is what the program itself writes, as opposed to the lines of the
  watch facility. For a command line without a watch argument and a name that appears
  in no text the run evaluates, appending \<^verbatim>\<open>watch=<name>\<close> leaves the output of the
  program as it is, and with it the error stream, the calls of the pipeline and the way
  the process ends. More than that, the whole trace of the watched run is the trace of
  the unwatched one with the banner of the watch facility added: the line
  \<^verbatim>\<open>[DEBUG] Watching variable: '<name>'\<close> and an empty line in front, and in the
  interactive mode the line \<^verbatim>\<open>Watching: <name>\<close> after the title.
\<close>

theorem unused_watch_name_keeps_program_output:
  assumes "parse_command_line_args argv = Inr (filename, None)" and "name \<noteq> []"
    and "never_appears w filename name"
  shows "program_output (fst (main w (argv @ [''watch='' @ name]))) =
           program_output (fst (main w argv))
    \<and> snd (main w (argv @ [''watch='' @ name])) = snd (main w argv)
    \<and> stderr_of (fst (main w (argv @ [''watch='' @ name]))) = stderr_of (fst (main w argv))
    \<and> invoked (fst (main w (argv @ [''watch='' @ name]))) = invoked (fst (main w argv))
    \<and> fst (main w (argv @ [''watch='' @ name])) =
        (if truthy filename then
           [print (''[DEBUG] Watching variable: '' @ sq # name @ [sq]), print []]
           @ fst (main w argv)
         else
           [print (''[DEBUG] Watching variable: '' @ sq # name @ [sq]), print [],
            print ''Language Interpreter REPL'', print (''Watching: '' @ name)]
           @ tl (fst (main w argv)))
    \<and> (truthy filename \<or> hd (fst (main w argv)) = print ''Language Interpreter REPL'')"
proof -
  have p: "parse_command_line_args (argv @ [''watch='' @ name]) = Inr (filename, Some name)"
    using assms(1,2) by (rule parse_with_watch)
  note m1 = main_parsed [OF assms(1), of w]
  note m2 = main_parsed [OF p, of w]
  show ?thesis
    unfolding m1 m2 using assms(2)
    by (simp add: prepend_def repl_mode_def stderr_of_append invoked_append print_def)
qed

theorem unused_watch_name_keeps_program_output_witness:
  "parse_command_line_args [''prog.t''] = Inr (Some ''prog.t'', None) \<and> ''y'' \<noteq> []
   \<and> never_appears demo_world (Some ''prog.t'') ''y''
   \<and> program_output (fst (main demo_world ([''prog.t''] @ [''watch='' @ ''y'']))) =
       program_output (fst (main demo_world [''prog.t'']))
   \<and> snd (main demo_world ([''prog.t''] @ [''watch='' @ ''y''])) = snd (main demo_world [''prog.t''])
   \<and> fst (main demo_world ([''prog.t''] @ [''watch='' @ ''y''])) =
       [print (''[DEBUG] Watching variable: '' @ sq # ''y'' @ [sq]), print []]
       @ fst (main demo_world [''prog.t''])"
proof -
  have h: "parse_command_line_args [''prog.t''] = Inr (Some ''prog.t'', None)"
    by (simp add: parse_command_line_args_def startswith_def)
  have n: "''y'' \<noteq> []" by simp
  have a: "never_appears demo_world (Some ''prog.t'') ''y''"
    by (simp add: never_appears_def program_texts_def demo_world_def startswith_def)
  have t: "truthy (Some ''prog.t'')" by simp
  note w = unused_watch_name_keeps_program_output [OF h n a]
  note w1 = w [THEN conjunct1]
  note w2 = w [THEN conjunct2, THEN conjunct1]
  note w5 = w [THEN conjunct2, THEN conjunct2, THEN conjunct2, THEN conjunct2, THEN conjunct1]
  have b: "fst (main demo_world ([''prog.t''] @ [''watch='' @ ''y''])) =
       [print (''[DEBUG] Watching variable: '' @ sq # ''y'' @ [sq]), print []]
       @ fst (main demo_world [''prog.t''])"
    using w5 t by (simp only: if_True)
  from h n a w1 w2 b show ?thesis by (intro conjI)
qed

subsection \<open>The value formatter (C3)\<close>

text \<open>
  Claim C3: the formatter is a pure, total, deterministic function of the value: a
  string is wrapped in double quotes, a boolean is \<^verbatim>\<open>true\<close> or \<^verbatim>\<open>false\<close>, null is
  \<^verbatim>\<open>null\<close>, a sequence is the bracketed, comma-space separated formats of its elements, a
  mapping shows its quoted keys in insertion order, any other value its default text;
  the format of a list is made of the formats of its elements.

  The formatter is not total. With the limits CPython starts with, the integer
  \<open>10 ^ 4300\<close>, of 4301 digits, makes \<^verbatim>\<open>str\<close> raise \<^verbatim>\<open>ValueError\<close>, and an empty list
  wrapped in 1000 lists makes the method run out of stack: \<^verbatim>\<open>RecursionError\<close>.
\<close>

theorem format_value_fails_beyond_limits:
  "format_value 4300 1000 (VInt (10 ^ 4300)) = Inl ValueError
   \<and> format_value 4300 1000 (wrap 1000 (VList [])) = Inl RecursionError"
proof
  have m: "(0::nat) < 4300" and n: "(4300::nat) \<le> 4300" and d: "(0::nat) < 1000"
    by simp_all
  show "format_value 4300 1000 (VInt (10 ^ 4300)) = Inl ValueError"
    using m n d by (rule format_value_big_int)
  have "(1000::nat) \<le> 1000" by simp
  then show "format_value 4300 1000 (wrap 1000 (VList [])) = Inl RecursionError"
    by (rule format_value_wrap)
qed

text \<open>
  Claim C3, amended: the formatter is a pure, deterministic function, total within the
  limits of the host. On every value nested no deeper than the calls that still fit on
  the stack, with no integer of more digits than the host converts (4300 unless
  configured), it returns the canonical text of the value: a string in double quotes, a
  boolean as \<^verbatim>\<open>true\<close> or \<^verbatim>\<open>false\<close>, null as \<^verbatim>\<open>null\<close>, a sequence as the bracketed,
  comma-space separated formats of its elements, a mapping with its quoted keys in
  insertion order, any other value as its default text; the format of a list is the
  bracketed join of the formats of its elements. On every value beyond one of the two
  limits it raises and returns no text.
\<close>

theorem format_value_within_limits:
  "(depth v \<le> d \<and> digits_ok m v \<longrightarrow> format_value m d v = Inr (canonical_text v))
   \<and> (\<not> (depth v \<le> d \<and> digits_ok m v) \<longrightarrow> (\<exists>e. format_value m d v = Inl e))
   \<and> format_value m (Suc d) (VList vs) =
       (case collect (map (format_value m d) vs) of
          Inl e \<Rightarrow> Inl e
        | Inr ts \<Rightarrow> Inr (''['' @ join '', '' ts @ '']''))"
proof (intro conjI impI)
  assume "depth v \<le> d \<and> digits_ok m v"
  then show "format_value m d v = Inr (canonical_text v)"
    by (simp add: format_value_ok)
next
  assume a: "\<not> (depth v \<le> d \<and> digits_ok m v)"
  show "\<exists>e. format_value m d v = Inl e"
  proof (cases "format_value m d v")
    case (Inl e)
    then show ?thesis by blast
  next
    case (Inr t)
    then have "depth v \<le> d \<and> digits_ok m v" by (rule format_value_Inr_D)
    with a show ?thesis by contradiction
  qed
next
  show "format_value m (Suc d) (VList vs) =
       (case collect (map (format_value m d) vs) of
          Inl e \<Rightarrow> Inl e
        | Inr ts \<Rightarrow> Inr (''['' @ join '', '' ts @ '']''))"
    by simp
qed

theorem format_value_within_limits_witness:
  "depth (VList [VInt 1, VStr ''a'', VList [VBool True, VNone]]) \<le> 3
   \<and> digits_ok 4300 (VList [VInt 1, VStr ''a'', VList [VBool True, VNone]])
   \<and> format_value 4300 3 (VList [VInt 1, VStr ''a'', VList [VBool True, VNone]]) =
       Inr (''[1, '' @ dq # ''a'' @ dq # '', [true, null]]'')
   \<and> \<not> depth (VList [VInt 1, VStr ''a'', VList [VBool True, VNone]]) \<le> 2
   \<and> (\<exists>e. format_value 4300 2 (VList [VInt 1, VStr ''a'', VList [VBool True, VNone]]) = Inl e)"
proof -
  let ?v = "VList [VInt 1, VStr ''a'', VList [VBool True, VNone]]"
  have d: "depth ?v = 3" by (simp add: maximum_def)
  have g: "digits_ok 4300 ?v" by (simp add: ndigits_def str_nat.simps)
  have c: "canonical_text ?v = ''[1, '' @ dq # ''a'' @ dq # '', [true, null]]''"
    by (simp add: str_int_def str_nat.simps)
  note t3 = format_value_within_limits [of ?v 3 4300, THEN conjunct1]
  note t2 = format_value_within_limits [of ?v 2 4300, THEN conjunct2, THEN conjunct1]
  have a: "format_value 4300 3 ?v = Inr (''[1, '' @ dq # ''a'' @ dq # '', [true, null]]'')"
    using t3 d g c by simp
  have n: "\<not> depth ?v \<le> 2" using d by simp
  have b: "\<exists>e. format_value 4300 2 ?v = Inl e" using t2 n by blast
  have d3: "depth ?v \<le> 3" using d by simp
  from d3 g a n b show ?thesis by (intro conjI)
qed

subsection \<open>The wrapped evaluator on an assignment (C4)\<close>



subsection \<open>Pipeline errors in the two modes (C5)\<close>

text \<open>
  Claim C5: in the interactive mode an iteration whose pipeline fails prints the error
  and the session goes on; a later valid statement succeeds and sees every variable
  bound before the error; in file mode the same failure ends the process.

  The loop goes on with the environment as the failing stage left it. A failure of the
  tokenizer or of the parser leaves it untouched; the evaluator mutates it in place, so
  after a failure inside the evaluator the bindings are those the evaluator left, and
  every variable bound before is still bound when the evaluator never removes a binding.
  The statement that follows runs in that environment.
\<close>

theorem repl_survives_pipeline_errors:
  assumes "strip s \<noteq> ''exit''" and "strip s \<noteq> ''quit''" and "strip s \<noteq> []"
    and "pipeline w s environment = (tr, environment', Inl (Exception msg))"
  shows "repl_loop w (Line s # rest) environment =
           prepend (Prompt ''>> '' # tr @ [print (''Error: '' @ msg)])
             (repl_loop w rest environment')
    \<and> (Invoke Evaluate \<notin> set tr \<longrightarrow> environment' = environment)
    \<and> ((\<forall>ast e. dom e \<subseteq> dom (o_env (evaluate w ast e))) \<longrightarrow>
          dom environment \<subseteq> dom environment')
    \<and> (\<forall>s2 tr2 environment2 v status.
          strip s2 \<noteq> ''exit'' \<and> strip s2 \<noteq> ''quit'' \<and> strip s2 \<noteq> [] \<and> status \<noteq> ''exit''
          \<and> pipeline w s2 environment' = (tr2, environment2, Inr (v, status)) \<longrightarrow>
          repl_loop w (Line s # Line s2 # rest) environment =
            prepend (Prompt ''>> '' # tr @ [print (''Error: '' @ msg)]
                     @ Prompt ''>> '' # tr2 @ show_result (host_str w) v)
              (repl_loop w rest environment2))
    \<and> (files w p = Readable s \<longrightarrow>
          file_mode w p environment = (tr @ [print_err (''Error: '' @ msg)], Exit 1))"
proof -
  have a: "repl_loop w (Line s # rest) environment =
           prepend (Prompt ''>> '' # tr @ [print (''Error: '' @ msg)])
             (repl_loop w rest environment')" for rest
    using assms by simp
  have b: "Invoke Evaluate \<notin> set tr \<longrightarrow> environment' = environment"
    using assms(4) by (auto simp: pipeline_def Let_def split: sum.splits)
  have e: "environment' = environment
      \<or> (\<exists>ast. environment' = o_env (evaluate w ast environment))"
    using assms(4) by (auto simp: pipeline_def Let_def split: sum.splits)
  have c: "(\<forall>ast e. dom e \<subseteq> dom (o_env (evaluate w ast e))) \<longrightarrow>
          dom environment \<subseteq> dom environment'"
    using e by blast
  have d: "files w p = Readable s \<longrightarrow>
          file_mode w p environment = (tr @ [print_err (''Error: '' @ msg)], Exit 1)"
    using assms(4) by (simp add: file_mode_def)
  have f: "\<forall>s2 tr2 environment2 v status.
          strip s2 \<noteq> ''exit'' \<and> strip s2 \<noteq> ''quit'' \<and> strip s2 \<noteq> [] \<and> status \<noteq> ''exit''
          \<and> pipeline w s2 environment' = (tr2, environment2, Inr (v, status)) \<longrightarrow>
          repl_loop w (Line s # Line s2 # rest) environment =
            prepend (Prompt ''>> '' # tr @ [print (''Error: '' @ msg)]
                     @ Prompt ''>> '' # tr2 @ show_result (host_str w) v)
              (repl_loop w rest environment2)"
  proof (intro allI impI, elim conjE)
    fix s2 tr2 environment2 v status
    assume h: "strip s2 \<noteq> ''exit''" "strip s2 \<noteq> ''quit''" "strip s2 \<noteq> []"
      "status \<noteq> ''exit''"
      "pipeline w s2 environment' = (tr2, environment2, Inr (v, status))"
    have step: "repl_loop w (Line s2 # rest) environment' =
        prepend (Prompt ''>> '' # tr2 @ show_result (host_str w) v)
          (repl_loop w rest environment2)"
      using h by simp
    have "repl_loop w (Line s # Line s2 # rest) environment =
        prepend (Prompt ''>> '' # tr @ [print (''Error: '' @ msg)])
          (repl_loop w (Line s2 # rest) environment')"
      by (rule a)
    also have "\<dots> = prepend (Prompt ''>> '' # tr @ [print (''Error: '' @ msg)]
                     @ Prompt ''>> '' # tr2 @ show_result (host_str w) v)
              (repl_loop w rest environment2)"
      unfolding step by (simp add: prepend_def)
    finally show "repl_loop w (Line s # Line s2 # rest) environment =
            prepend (Prompt ''>> '' # tr @ [print (''Error: '' @ msg)]
                     @ Prompt ''>> '' # tr2 @ show_result (host_str w) v)
              (repl_loop w rest environment2)" .
  qed
  from a [of rest] b c d f show ?thesis by (intro conjI)
qed

theorem repl_survives_pipeline_errors_witness:
  "strip ''y'' \<noteq> ''exit'' \<and> strip ''y'' \<noteq> ''quit'' \<and> strip ''y'' \<noteq> []
   \<and> (\<forall>ast e. dom e \<subseteq> dom (o_env (evaluate demo_world ast e)))
   \<and> pipeline demo_world ''y'' [''x'' \<mapsto> VInt 5] =
       ([Invoke Tokenize, Invoke Parse, Invoke Evaluate, Out []], [''x'' \<mapsto> VInt 5],
        Inl (Exception ''Unknown variable y''))
   \<and> pipeline demo_world ''x'' [''x'' \<mapsto> VInt 5] =
       ([Invoke Tokenize, Invoke Parse, Invoke Evaluate, Out []], [''x'' \<mapsto> VInt 5],
        Inr (VInt 5, ''normal''))
   \<and> repl_loop demo_world [Line ''y'', Line ''x''] [''x'' \<mapsto> VInt 5] =
       ([Prompt ''>> '', Invoke Tokenize, Invoke Parse, Invoke Evaluate, Out [],
         print ''Error: Unknown variable y'',
         Prompt ''>> '', Invoke Tokenize, Invoke Parse, Invoke Evaluate, Out [],
         print ''5'',
         Prompt ''>> '', print ''Error: EOF when reading a line''], Spinning)
   \<and> file_mode demo_world ''bad.t'' [''x'' \<mapsto> VInt 5] =
       ([Invoke Tokenize, Invoke Parse, Invoke Evaluate, Out [],
         print_err ''Error: Unknown variable y''], Exit 1)"
proof -
  have f: "files demo_world ''bad.t'' = Readable ''y''"
    by (simp add: demo_world_def)
  have h: "host_str demo_world = (\<lambda>v. [])" by (simp add: demo_world_def)
  note t = repl_survives_pipeline_errors [of "''y''" demo_world "[''x'' \<mapsto> VInt 5]" _ _ _
      "[]" "''bad.t''", OF _ _ _ demo_pipeline_unknown]
  show ?thesis
    using t demo_pipeline_unknown demo_pipeline_known f
    by (simp add: strip_examples h prepend_def show_result_def py_str_def str_int_def
        str_nat.simps print_def demo_evaluate_dom)
qed

subsection \<open>A script that does not exist (C6)\<close>

text \<open>
  Claim C6: in file mode a missing script makes the process print
  \<^verbatim>\<open>Error: File '<path>' not found\<close> on the error stream and exit with code 1 before
  any stage of the pipeline is called.

  The exit code and the order are as claimed; the message is written with a plain
  \<^verbatim>\<open>print\<close>, to the standard output, while the handler of the same mode a few lines
  below prints its error with \<^verbatim>\<open>file=sys.stderr\<close>.
\<close>

theorem missing_file_message_goes_to_stdout:
  "files demo_world ''missing.t'' = NoFile
   \<and> main demo_world [''missing.t''] =
       ([Out (''Error: File '' @ sq # ''missing.t'' @ sq # '' not found'' @ [nl])], Exit 1)
   \<and> stderr_of (fst (main demo_world [''missing.t''])) = []
   \<and> invoked (fst (main demo_world [''missing.t''])) = []"
  by code_simp

subsection \<open>An empty watch name (C7)\<close>

text \<open>
  Claim C7: a command line that holds the argument \<^verbatim>\<open>watch=\<close>, with no name, makes the
  process print the configuration error and exit with code 1 before anything is
  tokenized or run.
\<close>

theorem empty_watch_name_is_fatal:
  "''watch='' \<in> set argv \<Longrightarrow>
     main w argv = ([print config_error], Exit 1) \<and> invoked (fst (main w argv)) = []"
  by (simp add: main_def parse_command_line_args_def args_loop_empty_watch print_def)

theorem empty_watch_name_is_fatal_witness:
  "''watch='' \<in> set [''prog.t'', ''watch=''] \<and>
   main demo_world [''prog.t'', ''watch=''] = ([print config_error], Exit 1) \<and>
   invoked (fst (main demo_world [''prog.t'', ''watch=''])) = []"
  using empty_watch_name_is_fatal [of "[''prog.t'', ''watch='']" demo_world]
  by (simp add: print_def)

subsection \<open>The exit code of an exit signal (C8)\<close>

text \<open>
  Both modes end the process on an exit signal with \<open>exit_code\<close> of the final value,
  the argument they pass to \<^verbatim>\<open>sys.exit\<close>.
\<close>

lemma exit_signal_ends_process:
  assumes "pipeline w s environment = (tr, environment', Inr (v, ''exit''))"
  shows "(files w p = Readable s \<longrightarrow> file_mode w p environment = (tr, Exit (exit_code v)))
    \<and> (strip s \<noteq> ''exit'' \<and> strip s \<noteq> ''quit'' \<and> strip s \<noteq> [] \<longrightarrow>
          repl_loop w (Line s # rest) environment = (Prompt ''>> '' # tr, Exit (exit_code v)))"
  using assms by (simp add: file_mode_def)

text \<open>
  Claim C8: when the evaluator returns the exit signal, the process ends with the final
  value as its exit code if the value is an integer, and with 0 if it is not, in both
  modes.

  The runner tests \<^verbatim>\<open>isinstance(final_value, int)\<close>, which holds for a boolean as well,
  while the formatter and the display of the interactive mode test \<^verbatim>\<open>bool\<close> first. The
  script of \<^verbatim>\<open>exit.t\<close> is \<^verbatim>\<open>exit true\<close>: the final value is the boolean true, no integer
  of the language, and the process ends with 1, not 0, in both modes. For \<^verbatim>\<open>exit 3\<close> and
  \<^verbatim>\<open>exit null\<close> the process ends with 3 and 0, as claimed.
\<close>

theorem exit_true_ends_with_status_one:
  "files demo_world ''exit.t'' = Readable ''exit true''
   \<and> snd (snd (pipeline demo_world ''exit true'' Map.empty)) = Inr (VBool True, ''exit'')
   \<and> (\<nexists>n. VBool True = VInt n)
   \<and> snd (main demo_world [''exit.t'']) = Exit 1
   \<and> snd (repl_loop demo_world [Line ''exit true''] Map.empty) = Exit 1
   \<and> snd (repl_loop demo_world [Line ''exit 3''] Map.empty) = Exit 3
   \<and> snd (repl_loop demo_world [Line ''exit null''] Map.empty) = Exit 0"
  by (simp, code_simp)

subsection \<open>The call stack of the watch context (C9)\<close>

text \<open>
  Claim C9: the call stack of the watch context starts empty and no operation of the
  runner pushes or pops a frame, so every watch report says \<^verbatim>\<open>at module level\<close> and none
  has the line with the depth of the call stack.
\<close>

theorem reports_are_at_module_level:
  assumes "in_scope ctx"
  shows "stack_trace ctx = []
    \<and> get_location ctx = ''at module level''
    \<and> (case snd (record_change h ctx x v) of
          Inl e \<Rightarrow> format_value (max_str_digits h) (depth_budget h) v = Inl e
        | Inr report \<Rightarrow>
            report = []
            \<or> (\<exists>text. format_value (max_str_digits h) (depth_budget h) v = Inr text
                 \<and> report =
                     nl # ''[WATCH: '' @ x @ ''] New value: '' @ text @ [nl]
                     @ ''         Location: at module level'' @ [nl]))"
proof -
  have s: "stack_trace ctx = []" using assms by (rule in_scope_stack)
  then show ?thesis
    by (simp add: get_location_def record_change_def Let_def split: option.splits sum.splits)
qed

theorem reports_are_at_module_level_witness:
  "stack_trace (WatchContext_init (Some ''x'')) = []
    \<and> get_location (WatchContext_init (Some ''x'')) = ''at module level''
    \<and> snd (record_change default_limits (WatchContext_init (Some ''x'')) ''x'' (VInt 5)) =
        Inr (nl # ''[WATCH: x] New value: 5'' @ [nl]
             @ ''         Location: at module level'' @ [nl])"
proof -
  have f: "format_value 4300 1000 (VInt 5) = Inr ''5''"
    using format_value_ok [of "VInt 5" 1000 4300]
    by (simp add: ndigits_def str_int_def str_nat.simps)
  show ?thesis
    using reports_are_at_module_level
      [where ctx = "WatchContext_init (Some ''x'')" and h = default_limits and x = "''x''"
         and v = "VInt 5", OF in_scope.created]
    by (simp add: record_change_def WatchContext_init_def get_location_def
        default_limits_def f)
qed

subsection \<open>A null result in the interactive mode (C10)\<close>

text \<open>
  Claim C10: in the interactive mode a successful evaluation with a normal signal and a
  null final value prints nothing: the block that shows the result is guarded by a test
  for null, so its inner branch that would print \<^verbatim>\<open>null\<close> is never taken.
\<close>

theorem null_result_prints_nothing:
  assumes "strip s \<noteq> ''exit''" and "strip s \<noteq> ''quit''" and "strip s \<noteq> []"
    and "pipeline w s environment = (tr, environment', Inr (VNone, status))"
    and "status \<noteq> ''exit''"
  shows "repl_loop w (Line s # rest) environment =
           prepend (Prompt ''>> '' # tr) (repl_loop w rest environment')
    \<and> show_result h VNone = []
    \<and> show_result h v =
        (if v = VNone then []
         else case v of VBool b \<Rightarrow> [print (if b then ''true'' else ''false'')]
              | _ \<Rightarrow> [print (py_str h v)])"
  using assms by (simp add: show_result_def split: val.splits)

theorem null_result_prints_nothing_witness:
  "strip ''x=5'' \<noteq> ''exit'' \<and> strip ''x=5'' \<noteq> ''quit'' \<and> strip ''x=5'' \<noteq> []
   \<and> pipeline demo_world ''x=5'' Map.empty =
       ([Invoke Tokenize, Invoke Parse, Invoke Evaluate, Out []], [''x'' \<mapsto> VInt 5],
        Inr (VNone, ''normal''))
   \<and> ''normal'' \<noteq> ''exit''
   \<and> repl_loop demo_world [Line ''x=5''] Map.empty =
       ([Prompt ''>> '', Invoke Tokenize, Invoke Parse, Invoke Evaluate, Out [],
         Prompt ''>> '', print ''Error: EOF when reading a line''], Spinning)"
proof -
  note t = null_result_prints_nothing [of "''x=5''" demo_world Map.empty _ _ _ "[]",
      OF _ _ _ demo_pipeline_assign]
  show ?thesis
    using t demo_pipeline_assign by (simp add: strip_examples prepend_def)
qed

end
